theory Spec2Isabelle
  imports Main
begin

section \<open>Strings as the program uses them\<close>

text \<open>
  The program is \<^verbatim>\<open>src/app.py\<close>. Its strings are Python \<^verbatim>\<open>str\<close> values; here a string is a
  \<^typ>\<open>string\<close>, a list of \<^typ>\<open>char\<close>, each character one code point below 256. The two
  literals of the source beyond that range (the microscope of the document title and the
  bullet glyph) are written as their UTF-8 bytes; they only ever appear in the output.
\<close>

definition newline :: char where
  "newline = CHR 0x0A"

definition star :: char where
  "star = CHR ''*''"

text \<open>
  \<^verbatim>\<open>str.isspace\<close> on one character, which is also what \<^verbatim>\<open>\s\<close> matches in a \<^verbatim>\<open>str\<close> pattern:
  the code points 9 to 13, 28 to 32, 133 and 160.
\<close>

definition isspace :: "char \<Rightarrow> bool" where
  "isspace c = (c \<in> set [CHR 0x09, CHR 0x0A, CHR 0x0B, CHR 0x0C, CHR 0x0D, CHR 0x1C, CHR 0x1D,
     CHR 0x1E, CHR 0x1F, CHR 0x20, CHR 0x85, CHR 0xA0])"

text \<open>\<^verbatim>\<open>s.strip()\<close>: whitespace removed at both ends.\<close>

definition strip :: "string \<Rightarrow> string" where
  "strip s = rev (dropWhile isspace (rev (dropWhile isspace s)))"

text \<open>\<^verbatim>\<open>s.split('\n')\<close>: never empty; \<^verbatim>\<open>''.split('\n')\<close> is \<^verbatim>\<open>['']\<close>.\<close>

fun split_lines :: "string \<Rightarrow> string list" where
  "split_lines [] = [[]]"
| "split_lines (c # cs) =
     (if c = newline then [] # split_lines cs
      else (case split_lines cs of
              [] \<Rightarrow> [[c]]
            | l # ls \<Rightarrow> (c # l) # ls))"

text \<open>\<^verbatim>\<open>sep.join(xs)\<close>.\<close>

fun join :: "string \<Rightarrow> string list \<Rightarrow> string" where
  "join sep [] = []"
| "join sep [x] = x"
| "join sep (x # y # ys) = x @ sep @ join sep (y # ys)"

text \<open>\<^verbatim>\<open>s.startswith(p)\<close>.\<close>

definition startswith :: "string \<Rightarrow> string \<Rightarrow> bool" where
  "startswith s p = (take (length p) s = p)"

section \<open>Regular-expression substitution\<close>

text \<open>
  \<^verbatim>\<open>re.sub(pattern, repl, s)\<close> scans \<^verbatim>\<open>s\<close> from the left. At each position it tries the
  pattern; on a match it emits the replacement and goes on after the match, otherwise it
  copies one character and moves one position on. A matcher is the pattern tried at one
  position: it sees the character before the position (for a lookbehind) and the text
  from the position on, and returns the text of group 1 and the length of the match.
  Every pattern of the program matches at least one character, so the scan treats a
  match of length 0 (or past the end) as no match.
\<close>

type_synonym matcher = "char option \<Rightarrow> string \<Rightarrow> (string \<times> nat) option"

function re_sub_from :: "matcher \<Rightarrow> (string \<Rightarrow> string) \<Rightarrow> char option \<Rightarrow> string \<Rightarrow> string" where
  "re_sub_from m repl prev [] = []"
| "re_sub_from m repl prev (c # cs) =
     (case m prev (c # cs) of
        None \<Rightarrow> c # re_sub_from m repl (Some c) cs
      | Some (g, n) \<Rightarrow>
          if 0 < n \<and> n \<le> Suc (length cs)
          then repl g @ re_sub_from m repl (Some ((c # cs) ! (n - 1))) (drop n (c # cs))
          else c # re_sub_from m repl (Some c) cs)"
  by pat_completeness auto
termination
  by (relation "measure (\<lambda>(m, repl, prev, s). length s)") auto

definition re_sub :: "matcher \<Rightarrow> (string \<Rightarrow> string) \<Rightarrow> string \<Rightarrow> string" where
  "re_sub m repl s = re_sub_from m repl None s"

subsection \<open>The bold pattern\<close>

text \<open>
  \<^verbatim>\<open>\*\*(.*?)\*\*\<close>. After the opening pair the lazy \<^verbatim>\<open>.*?\<close> stops at the first position
  where a pair of stars follows; \<^verbatim>\<open>.\<close> matches no newline. \<open>lazy_bold\<close> is the length
  of the group.
\<close>

fun lazy_bold :: "string \<Rightarrow> nat option" where
  "lazy_bold [] = None"
| "lazy_bold (c # cs) =
     (if take 2 (c # cs) = [star, star] then Some 0
      else if c = newline then None
      else map_option Suc (lazy_bold cs))"

definition match_bold :: matcher where
  "match_bold prev s =
     (if take 2 s = [star, star]
      then (case lazy_bold (drop 2 s) of
              None \<Rightarrow> None
            | Some k \<Rightarrow> Some (take k (drop 2 s), k + 4))
      else None)"

subsection \<open>The italic pattern of the display back-end\<close>

text \<open>
  \<^verbatim>\<open>(?<!\*)\*(.*?)\*(?!\*)\<close>. The character before the opening star is not a star; the
  lazy group stops at the first star that no star follows, and may be empty and may hold
  stars.
\<close>

definition not_star_next :: "string \<Rightarrow> bool" where
  "not_star_next s = (case s of [] \<Rightarrow> True | d # ds \<Rightarrow> d \<noteq> star)"

fun lazy_em :: "string \<Rightarrow> nat option" where
  "lazy_em [] = None"
| "lazy_em (c # cs) =
     (if c = star \<and> not_star_next cs then Some 0
      else if c = newline then None
      else map_option Suc (lazy_em cs))"

definition match_em :: matcher where
  "match_em prev s =
     (if prev \<noteq> Some star \<and> take 1 s = [star]
      then (case lazy_em (drop 1 s) of
              None \<Rightarrow> None
            | Some k \<Rightarrow> Some (take k (drop 1 s), k + 2))
      else None)"

subsection \<open>The italic pattern of the document back-end\<close>

text \<open>
  \<^verbatim>\<open>(?<!\*)\*([^*]+?)\*(?!\*)\<close>. The group is one or more characters other than a star,
  so the first star after the opening one is the only possible closing star.
  \<open>lazy_nonstar\<close> counts the characters of the group after its first one.
\<close>

fun lazy_nonstar :: "string \<Rightarrow> nat option" where
  "lazy_nonstar [] = None"
| "lazy_nonstar (c # cs) =
     (if c = star then (if not_star_next cs then Some 0 else None)
      else map_option Suc (lazy_nonstar cs))"

definition match_i :: matcher where
  "match_i prev s =
     (if prev \<noteq> Some star
      then (case s of
              a # b # rest \<Rightarrow>
                if a = star \<and> b \<noteq> star
                then (case lazy_nonstar rest of
                        None \<Rightarrow> None
                      | Some k \<Rightarrow> Some (take (Suc k) (b # rest), k + 3))
                else None
            | _ \<Rightarrow> None)
      else None)"

subsection \<open>The URL pattern\<close>

text \<open>
  \<^verbatim>\<open>(https?://[^\s<>"{}|\\^[\]]+)\<close>: the scheme, then the longest non-empty run of
  characters outside the class (whitespace and the ten listed characters).
\<close>

definition url_char :: "char \<Rightarrow> bool" where
  "url_char c = (\<not> isspace c \<and> c \<notin> set [CHR ''<'', CHR ''>'', CHR 0x22, CHR ''{'', CHR ''}'',
     CHR ''|'', CHR 0x5C, CHR ''^'', CHR ''['', CHR '']''])"

definition match_url :: matcher where
  "match_url prev s =
     (case (if take 8 s = ''https://'' then Some 8
            else if take 7 s = ''http://'' then Some 7
            else None) of
        None \<Rightarrow> None
      | Some k \<Rightarrow>
          (case takeWhile url_char (drop k s) of
             [] \<Rightarrow> None
           | u # us \<Rightarrow> Some (take (k + Suc (length us)) s, k + Suc (length us))))"

subsection \<open>The list pattern\<close>

text \<open>
  \<^verbatim>\<open>(<li[^>]*>.*?</li>(?:\s*<li[^>]*>.*?</li>)*)\<close> with \<^verbatim>\<open>re.DOTALL\<close>, so \<^verbatim>\<open>.\<close> matches
  every character. \<open>find_close\<close> is the length of the lazy \<^verbatim>\<open>.*?\<close> before the first
  \<^verbatim>\<open></li>\<close>; \<open>match_li\<close> is the length of one \<^verbatim>\<open><li[^>]*>.*?</li>\<close>; \<open>match_li_more\<close> is
  the length of the greedy repetition.
\<close>

fun find_close :: "string \<Rightarrow> nat option" where
  "find_close [] = None"
| "find_close (c # cs) =
     (if take 5 (c # cs) = ''</li>'' then Some 0
      else map_option Suc (find_close cs))"

definition match_li :: "string \<Rightarrow> nat option" where
  "match_li s =
     (if take 3 s = ''<li''
      then (let a = length (takeWhile (\<lambda>c. c \<noteq> CHR ''>'') (drop 3 s)) in
            if take 1 (drop (3 + a) s) = ''>''
            then map_option (\<lambda>k. 3 + a + 1 + k + 5) (find_close (drop (3 + a + 1) s))
            else None)
      else None)"

function match_li_more :: "string \<Rightarrow> nat" where
  "match_li_more s =
     (let w = length (takeWhile isspace s) in
      case match_li (drop w s) of
        None \<Rightarrow> 0
      | Some n \<Rightarrow> w + n + match_li_more (drop (w + n) s))"
  by pat_completeness auto

lemma match_li_Some: "match_li s = Some n \<Longrightarrow> 0 < n \<and> s \<noteq> []"
  by (auto simp: match_li_def Let_def split: if_splits)

termination match_li_more
proof (relation "measure length")
  show "wf (measure length)" by simp
next
  fix s :: string and w n
  assume w: "w = length (takeWhile isspace s)" and m: "match_li (drop w s) = Some n"
  from match_li_Some [OF m] have "0 < n" and "drop w s \<noteq> []" by simp_all
  then show "(drop (w + n) s, s) \<in> measure length" by auto
qed

declare match_li_more.simps [simp del]

definition match_ul :: matcher where
  "match_ul prev s =
     (case match_li s of
        None \<Rightarrow> None
      | Some n \<Rightarrow> Some (take (n + match_li_more (drop n s)) s, n + match_li_more (drop n s)))"

section \<open>The display back-end\<close>

text \<open>The replacement templates of \<^verbatim>\<open>process_markdown_to_html\<close>.\<close>

definition strong_repl :: "string \<Rightarrow> string" where
  "strong_repl g = ''<strong>'' @ g @ ''</strong>''"

definition em_repl :: "string \<Rightarrow> string" where
  "em_repl g = ''<em>'' @ g @ ''</em>''"

definition a_repl :: "string \<Rightarrow> string" where
  \<open>a_repl g = ''<a href="'' @ g @
     ''" target="_blank" style="color: #3b82f6; text-decoration: underline;">'' @ g @ ''</a>''\<close>

definition ul_repl :: "string \<Rightarrow> string" where
  \<open>ul_repl g = ''<ul style="margin-bottom: 1.5rem; padding-left: 1.5rem;">'' @ g @ ''</ul>''\<close>

text \<open>The opening tags of the four kinds of block.\<close>

definition h3_open :: string where
  \<open>h3_open = ''<h3 style="color: #374151; margin-top: 1.5rem; margin-bottom: 0.8rem;">''\<close>

definition h2_open :: string where
  \<open>h2_open = ''<h2 style="color: #1e40af; margin-top: 2rem; margin-bottom: 1rem; padding-bottom: 0.3rem; border-bottom: 2px solid #e2e8f0;">''\<close>

definition h1_open :: string where
  \<open>h1_open = ''<h1 style="color: #1e40af; margin-top: 2.5rem; margin-bottom: 1.5rem; padding-bottom: 0.5rem; border-bottom: 3px solid #3b82f6;">''\<close>

definition li_open :: string where
  \<open>li_open = ''<li style="margin-bottom: 0.5rem;">''\<close>

definition p_open :: string where
  \<open>p_open = ''<p style="margin-bottom: 1rem; line-height: 1.6;">''\<close>

text \<open>
  The body of the loop for one line that is stripped and not empty: the string appended
  to \<^verbatim>\<open>processed_lines\<close>. Headings take the rest of the line as it is; a bullet takes the
  stripped rest through the bold and the italic substitution; a paragraph takes the line
  through the bold, the italic and the URL substitution, which is \<open>html_inline\<close>.
\<close>

definition html_inline :: "string \<Rightarrow> string" where
  "html_inline t = re_sub match_url a_repl (re_sub match_em em_repl (re_sub match_bold strong_repl t))"

definition html_block :: "string \<Rightarrow> string" where
  "html_block line =
     (if startswith line ''### '' then h3_open @ drop 4 line @ ''</h3>''
      else if startswith line ''## '' then h2_open @ drop 3 line @ ''</h2>''
      else if startswith line ''# '' then h1_open @ drop 2 line @ ''</h1>''
      else if startswith line ''- '' \<or> startswith line ''* ''
      then li_open @ re_sub match_em em_repl (re_sub match_bold strong_repl (strip (drop 2 line)))
             @ ''</li>''
      else p_open @ html_inline line @ ''</p>'')"

text \<open>The loop over the lines: a line that is empty once stripped is skipped.\<close>

fun html_lines :: "string list \<Rightarrow> string list" where
  "html_lines [] = []"
| "html_lines (l # ls) =
     (if strip l = [] then html_lines ls
      else html_block (strip l) # html_lines ls)"

definition process_markdown_to_html :: "string \<Rightarrow> string" where
  "process_markdown_to_html content =
     (if content = [] then []
      else re_sub match_ul ul_repl (join [newline] (html_lines (split_lines content))))"

section \<open>The document back-end\<close>

text \<open>
  \<^verbatim>\<open>generate_pdf\<close> builds a list of ReportLab flowables and hands it to \<^verbatim>\<open>doc.build\<close>.
  A paragraph carries its markup text and the name of its style; a spacer its width in
  points and its height in tenths of an inch. The time of generation is an argument.
\<close>

datatype style = CustomTitle | CustomHeading1 | CustomHeading2 | Heading3 | Normal

datatype flowable = Paragraph string style | Spacer nat nat

text \<open>
  ReportLab's constructor \<^verbatim>\<open>Paragraph(text, style)\<close> parses the markup of its text and
  raises \<^verbatim>\<open>ValueError\<close> when the markup is malformed (an unclosed or a wrongly nested tag,
  for one). \<^verbatim>\<open>generate_pdf\<close> does not catch it, so the first paragraph that is refused
  ends the function. The parser is ReportLab's and not the program's: it is a parameter
  of the model, the predicate that says which text it accepts in which style.
\<close>

datatype pdf_error = ValueError

type_synonym paraparser = "string \<Rightarrow> style \<Rightarrow> bool"

text \<open>\<^verbatim>\<open>content.append(Paragraph(text, style))\<close>: the flowables appended, or the error raised.\<close>

definition append_paragraph :: "paraparser \<Rightarrow> string \<Rightarrow> style \<Rightarrow> pdf_error + flowable list" where
  "append_paragraph accepts text st =
     (if accepts text st then Inr [Paragraph text st] else Inl ValueError)"

text \<open>One step after another: the second runs when the first has not raised.\<close>

definition then_append ::
  "pdf_error + flowable list \<Rightarrow> pdf_error + flowable list \<Rightarrow> pdf_error + flowable list" where
  "then_append first second =
     (case first of
        Inl e \<Rightarrow> Inl e
      | Inr xs \<Rightarrow> (case second of Inl e \<Rightarrow> Inl e | Inr ys \<Rightarrow> Inr (xs @ ys)))"

definition b_repl :: "string \<Rightarrow> string" where
  "b_repl g = ''<b>'' @ g @ ''</b>''"

definition i_repl :: "string \<Rightarrow> string" where
  "i_repl g = ''<i>'' @ g @ ''</i>''"

definition link_repl :: "string \<Rightarrow> string" where
  \<open>link_repl g = ''<link href="'' @ g @ ''">'' @ g @ ''</link>''\<close>

definition bullet :: string where
  "bullet = [CHR 0xE2, CHR 0x80, CHR 0xA2]"

definition microscope :: string where
  "microscope = [CHR 0xF0, CHR 0x9F, CHR 0x94, CHR 0xAC]"

text \<open>The three substitutions on the whole stripped line: \<^verbatim>\<open>processed_line\<close>.\<close>

definition processed_line :: "string \<Rightarrow> string" where
  "processed_line line =
     re_sub match_url link_repl (re_sub match_i i_repl (re_sub match_bold b_repl line))"

text \<open>
  The body of the loop for one stripped line: the flowables appended to \<^verbatim>\<open>content\<close>, or
  the error of the constructor. The prefix is tested on the line, and cut from the
  processed line.
\<close>

definition pdf_block :: "paraparser \<Rightarrow> string \<Rightarrow> pdf_error + flowable list" where
  "pdf_block accepts line =
     (if line = [] then Inr [Spacer 1 1]
      else if startswith line ''# ''
      then append_paragraph accepts (drop 2 (processed_line line)) CustomHeading1
      else if startswith line ''## ''
      then append_paragraph accepts (drop 3 (processed_line line)) CustomHeading2
      else if startswith line ''### ''
      then append_paragraph accepts (drop 4 (processed_line line)) Heading3
      else if startswith line ''- '' \<or> startswith line ''* ''
      then append_paragraph accepts (bullet @ '' '' @ drop 2 (processed_line line)) Normal
      else if processed_line line \<noteq> [] then append_paragraph accepts (processed_line line) Normal
      else Inr [])"

fun pdf_lines :: "paraparser \<Rightarrow> string list \<Rightarrow> pdf_error + flowable list" where
  "pdf_lines accepts [] = Inr []"
| "pdf_lines accepts (l # ls) = then_append (pdf_block accepts (strip l)) (pdf_lines accepts ls)"

text \<open>
  \<^verbatim>\<open>generate_pdf\<close>: the list handed to \<^verbatim>\<open>doc.build\<close>, or the error of the first
  constructor that raised. The title, the two lines of the header and the spacer come
  before the lines of the report. What \<^verbatim>\<open>doc.build\<close> does with the list (the layout and
  the bytes of the file) is not modelled.
\<close>

definition generate_pdf ::
  "paraparser \<Rightarrow> string \<Rightarrow> string \<Rightarrow> string \<Rightarrow> pdf_error + flowable list" where
  "generate_pdf accepts now report_content query =
     then_append (append_paragraph accepts (microscope @ '' AI Research Report'') CustomTitle)
    (then_append (append_paragraph accepts (''<b>Query:</b> '' @ query) Normal)
    (then_append (append_paragraph accepts (''<b>Generated:</b> '' @ now) Normal)
    (then_append (Inr [Spacer 1 3])
       (pdf_lines accepts (split_lines report_content)))))"

section \<open>The search aggregator\<close>

text \<open>
  The search client is a collaborator: a function from the keyword arguments of
  \<^verbatim>\<open>tavily.search\<close> to the response, or to the message of the exception it raises. An
  argument the call does not pass is \<open>None\<close>. A response is the dictionary the client
  returns, with string values; a key that is absent is \<open>None\<close>.
\<close>

record search_request =
  rq_query :: string
  rq_search_depth :: string
  rq_max_results :: nat
  rq_include_answer :: bool
  rq_include_raw_content :: "bool option"
  rq_include_domains :: "string list option"

record search_result =
  r_title :: "string option"
  r_url :: "string option"
  r_content :: "string option"

record search_response =
  resp_answer :: "string option"
  resp_results :: "search_result list option"

type_synonym tavily = "search_request \<Rightarrow> string + search_response"

text \<open>A natural number in decimal, as an f-string prints it.\<close>

fun str_nat :: "nat \<Rightarrow> string" where
  "str_nat n =
     (if n < 10 then [char_of (n + 48)]
      else str_nat (n div 10) @ [char_of (n mod 10 + 48)])"

text \<open>\<^verbatim>\<open>d.get(key, default)\<close> inside an f-string.\<close>

definition get_or :: "string option \<Rightarrow> string \<Rightarrow> string" where
  "get_or v d = (case v of None \<Rightarrow> d | Some x \<Rightarrow> x)"

text \<open>The loop of \<^verbatim>\<open>_format_response\<close> over \<^verbatim>\<open>enumerate(response['results'], 1)\<close>.\<close>

fun format_results :: "nat \<Rightarrow> search_result list \<Rightarrow> string list" where
  "format_results i [] = []"
| "format_results i (r # rs) =
     [''**SOURCE '' @ str_nat i @ '':** '' @ get_or (r_title r) ''No title'',
      ''**URL:** '' @ get_or (r_url r) ''No URL'',
      ''**CONTENT:** '' @ get_or (r_content r) ''No content'',
      replicate 30 CHR ''-'']
     @ format_results (Suc i) rs"

definition format_response :: "search_response \<Rightarrow> string" where
  "format_response response =
     join [newline]
       ((case resp_answer response of
           None \<Rightarrow> []
         | Some a \<Rightarrow> if a = [] then [] else [''**INSIGHT:** '' @ a @ [newline]])
        @ (case resp_results response of
             None \<Rightarrow> []
           | Some rs \<Rightarrow> format_results 1 rs))"

definition primary_request :: "string \<Rightarrow> search_request" where
  "primary_request query =
     \<lparr>rq_query = query, rq_search_depth = ''advanced'', rq_max_results = 15,
      rq_include_answer = True, rq_include_raw_content = Some True,
      rq_include_domains = Some [''yourstory.com'', ''economictimes.indiatimes.com'',
        ''techcrunch.com'', ''inc42.com'', ''business-standard.com'', ''livemint.com'',
        ''forbesindia.com'', ''moneycontrol.com'']\<rparr>"

definition targeted_request :: "string \<Rightarrow> search_request" where
  "targeted_request targeted_query =
     \<lparr>rq_query = targeted_query, rq_search_depth = ''basic'', rq_max_results = 5,
      rq_include_answer = True, rq_include_raw_content = None, rq_include_domains = None\<rparr>"

definition targeted_searches :: "string \<Rightarrow> string list" where
  "targeted_searches query =
     [query @ '' funding investment 2024 2025'', query @ '' latest news recent developments'']"

text \<open>
  The loop over the targeted queries: the blocks it appends to \<^verbatim>\<open>all_results\<close>. A query
  that raises is skipped.
\<close>

fun targeted_loop :: "tavily \<Rightarrow> string list \<Rightarrow> string list" where
  "targeted_loop search [] = []"
| "targeted_loop search (q # qs) =
     (case search (targeted_request q) of
        Inl e \<Rightarrow> targeted_loop search qs
      | Inr additional_response \<Rightarrow> format_response additional_response # targeted_loop search qs)"

text \<open>
  \<^verbatim>\<open>advanced_search\<close>: \<open>Inl\<close> is the message of the exception it raises. The returned
  string is \<^verbatim>\<open>"\n\n" + "="*50 + "\n\n".join(all_results)\<close>, where the method call binds
  tighter than \<^verbatim>\<open>+\<close>.
\<close>

definition advanced_search :: "tavily \<Rightarrow> string \<Rightarrow> string + string" where
  "advanced_search search query =
     (case search (primary_request query) of
        Inl e \<Rightarrow> Inl (''Search failed: '' @ e)
      | Inr response \<Rightarrow>
          Inr ([newline, newline] @ replicate 50 CHR ''=''
               @ join [newline, newline]
                   (format_response response # targeted_loop search (targeted_searches query))))"

section \<open>The pipeline and the session\<close>

text \<open>
  The language-model chain is a collaborator too: each agent builds a prompt from its
  template and its inputs and invokes the chain, which returns the text or raises. A call
  is the agent with the values bound to the variables of its template.
\<close>

datatype agent_call =
    ResearchCall string string
  | SummarizerCall string
  | CriticCall string
  | WriterCall string string string

type_synonym chain = "agent_call \<Rightarrow> string + string"

record env =
  GROQ_API_KEY :: "string option"
  TAVILY_API_KEY :: "string option"

text \<open>\<^verbatim>\<open>not os.getenv(k)\<close>: the variable is unset or empty.\<close>

definition unset :: "string option \<Rightarrow> bool" where
  "unset v = (case v of None \<Rightarrow> True | Some x \<Rightarrow> x = [])"

text \<open>The constructor of \<^verbatim>\<open>ResearchAgents\<close>: it raises when a key is missing.\<close>

definition research_agents_init :: "env \<Rightarrow> string + unit" where
  "research_agents_init e =
     (if unset (GROQ_API_KEY e) \<or> unset (TAVILY_API_KEY e)
      then Inl ''API keys not found in environment variables''
      else Inr ())"

text \<open>
  The body of the \<^verbatim>\<open>try\<close> of \<^verbatim>\<open>main\<close> up to the final report: the search, then the four
  agents in order, each on the outputs before it. The first exception ends it. The
  constructors of the two clients are taken to return.
\<close>

definition run_agents :: "env \<Rightarrow> tavily \<Rightarrow> chain \<Rightarrow> string \<Rightarrow> string + string" where
  "run_agents e search llm query =
     (case research_agents_init e of
        Inl err \<Rightarrow> Inl err
      | Inr u \<Rightarrow>
     (case advanced_search search query of
        Inl err \<Rightarrow> Inl err
      | Inr search_results \<Rightarrow>
     (case llm (ResearchCall query search_results) of
        Inl err \<Rightarrow> Inl err
      | Inr research_data \<Rightarrow>
     (case llm (SummarizerCall research_data) of
        Inl err \<Rightarrow> Inl err
      | Inr summary \<Rightarrow>
     (case llm (CriticCall summary) of
        Inl err \<Rightarrow> Inl err
      | Inr critique \<Rightarrow> llm (WriterCall research_data summary critique))))))"

record session_state =
  research_result :: "string option"
  research_query :: string

datatype message = Error string | Success string

text \<open>
  The handler of the button in \<^verbatim>\<open>main\<close>: the session after it and the message it shows.
  The two values of the session are assigned after the last agent has returned.
\<close>

definition start_research ::
  "env \<Rightarrow> tavily \<Rightarrow> chain \<Rightarrow> string \<Rightarrow> session_state \<Rightarrow> session_state \<times> message" where
  "start_research e search llm query st =
     (if strip query = [] then (st, Error ''Please enter a research query'')
      else if unset (GROQ_API_KEY e) \<or> unset (TAVILY_API_KEY e)
      then (st, Error ''API keys not found. Please check your .env file'')
      else (case run_agents e search llm query of
              Inl err \<Rightarrow> (st, Error (''Research failed: '' @ err))
            | Inr final_report \<Rightarrow>
                (st\<lparr>research_result := Some final_report, research_query := query\<rparr>,
                 Success ''Research completed! Results are displayed below.'')))"

section \<open>Notions the statements use\<close>

text \<open>The responses of the targeted queries that did not raise, in the order of the queries.\<close>

definition supplementary_ok :: "tavily \<Rightarrow> string list \<Rightarrow> search_response list" where
  "supplementary_ok search qs =
     List.map_filter (\<lambda>q. case search (targeted_request q) of Inl e \<Rightarrow> None | Inr r \<Rightarrow> Some r) qs"

text \<open>The divider the aggregator writes: a blank line and a rule of fifty equals signs.\<close>

definition divider :: string where
  "divider = [newline, newline] @ replicate 50 CHR ''=''"

text \<open>
  The search and the four agents all return, each agent on the outputs before it, and
  the writer returns \<open>final_report\<close>.
\<close>

definition all_stages_succeed :: "tavily \<Rightarrow> chain \<Rightarrow> string \<Rightarrow> string \<Rightarrow> bool" where
  "all_stages_succeed search llm query final_report =
     (\<exists>search_results research_data summary critique.
        advanced_search search query = Inr search_results \<and>
        llm (ResearchCall query search_results) = Inr research_data \<and>
        llm (SummarizerCall research_data) = Inr summary \<and>
        llm (CriticCall summary) = Inr critique \<and>
        llm (WriterCall research_data summary critique) = Inr final_report)"

text \<open>A stripped line that is neither a heading nor a bullet: a paragraph when not empty.\<close>

definition plain :: "string \<Rightarrow> bool" where
  "plain line = (\<not> startswith line ''### '' \<and> \<not> startswith line ''## '' \<and> \<not> startswith line ''# ''
     \<and> \<not> startswith line ''- '' \<and> \<not> startswith line ''* '')"

subsection \<open>The two-phase renderer of the specification\<close>










text \<open>The lines that follow a first line in a \<^verbatim>\<open>join\<close>: each with its newline before it.\<close>

definition tails :: "string list \<Rightarrow> string" where
  "tails xs = concat (map (\<lambda>y. newline # y) xs)"

subsection \<open>Tags in the markup\<close>












subsection \<open>Collaborators for the concrete runs\<close>

text \<open>A search client that always raises.\<close>

definition search_down :: tavily where
  "search_down rq = Inl ''timeout''"

text \<open>A search client whose first targeted query raises.\<close>

definition search_partial :: tavily where
  "search_partial rq =
     (if rq_search_depth rq = ''advanced''
      then Inr \<lparr>resp_answer = Some ''A'', resp_results = None\<rparr>
      else if rq_query rq = ''q funding investment 2024 2025'' then Inl ''rate limit''
      else Inr \<lparr>resp_answer = Some ''N'', resp_results = None\<rparr>)"

text \<open>A search client that answers every query.\<close>

definition search_up :: tavily where
  "search_up rq =
     (if rq_search_depth rq = ''advanced''
      then Inr \<lparr>resp_answer = Some ''A'',
                resp_results = Some [\<lparr>r_title = Some ''T'', r_url = Some ''U'', r_content = None\<rparr>]\<rparr>
      else if rq_query rq = ''q funding investment 2024 2025''
      then Inr \<lparr>resp_answer = Some ''F'', resp_results = None\<rparr>
      else Inr \<lparr>resp_answer = Some ''N'', resp_results = None\<rparr>)"

text \<open>A paragraph parser that accepts every text, and one that accepts none.\<close>

definition accepts_all :: paraparser where
  "accepts_all text st = True"

definition rejects_all :: paraparser where
  "rejects_all text st = False"

text \<open>A chain whose critic raises, and one that always returns.\<close>

definition llm_critic_down :: chain where
  "llm_critic_down c = (case c of CriticCall s \<Rightarrow> Inl ''model unavailable'' | _ \<Rightarrow> Inr ''text'')"

definition llm_up :: chain where
  "llm_up c = (case c of WriterCall r s k \<Rightarrow> Inr ''# Report'' | _ \<Rightarrow> Inr ''text'')"

definition both_keys :: env where
  "both_keys = \<lparr>GROQ_API_KEY = Some ''g'', TAVILY_API_KEY = Some ''t''\<rparr>"

definition held :: session_state where
  "held = \<lparr>research_result = Some ''old report'', research_query = ''old query''\<rparr>"

section \<open>Auxiliary facts\<close>

subsection \<open>The aggregator and the pipeline\<close>

lemma targeted_loop_ok:
  "targeted_loop search qs = map format_response (supplementary_ok search qs)"
  by (induction qs) (auto simp: supplementary_ok_def List.map_filter_simps split: sum.splits)

lemma run_agents_Inr:
  "run_agents e search llm query = Inr fr \<Longrightarrow> all_stages_succeed search llm query fr"
  unfolding run_agents_def all_stages_succeed_def
  by (auto split: sum.splits)

lemma run_agents_all:
  assumes "\<not> unset (GROQ_API_KEY e)" and "\<not> unset (TAVILY_API_KEY e)"
    and "all_stages_succeed search llm query fr"
  shows "run_agents e search llm query = Inr fr"
  using assms unfolding all_stages_succeed_def run_agents_def research_agents_init_def
  by auto

subsection \<open>Substitution on a line\<close>

text \<open>A replacement is never empty, so a substitution keeps a non-empty string non-empty.\<close>

lemma re_sub_from_nonempty:
  assumes "s \<noteq> []" and "\<And>g. repl g \<noteq> []"
  shows "re_sub_from m repl prev s \<noteq> []"
  using assms by (cases s) (auto split: option.splits)

lemma re_sub_nonempty:
  assumes "s \<noteq> []" and "\<And>g. repl g \<noteq> []"
  shows "re_sub m repl s \<noteq> []"
  unfolding re_sub_def using assms by (rule re_sub_from_nonempty)











lemma processed_line_nonempty: "line \<noteq> [] \<Longrightarrow> processed_line line \<noteq> []"
proof -
  assume ne: "line \<noteq> []"
  have "re_sub match_bold b_repl line \<noteq> []"
    using ne by (rule re_sub_nonempty) (simp add: b_repl_def)
  then have "re_sub match_i i_repl (re_sub match_bold b_repl line) \<noteq> []"
    by (rule re_sub_nonempty) (simp add: i_repl_def)
  then show ?thesis
    unfolding processed_line_def by (rule re_sub_nonempty) (simp add: link_repl_def)
qed

lemma html_inline_nonempty: "line \<noteq> [] \<Longrightarrow> html_inline line \<noteq> []"
proof -
  assume ne: "line \<noteq> []"
  have "re_sub match_bold strong_repl line \<noteq> []"
    using ne by (rule re_sub_nonempty) (simp add: strong_repl_def)
  then have "re_sub match_em em_repl (re_sub match_bold strong_repl line) \<noteq> []"
    by (rule re_sub_nonempty) (simp add: em_repl_def)
  then show ?thesis
    unfolding html_inline_def by (rule re_sub_nonempty) (simp add: a_repl_def)
qed

lemma plain_blocks:
  assumes "line \<noteq> []" and "plain line"
  shows "pdf_block accepts line = append_paragraph accepts (processed_line line) Normal"
    and "html_block line = p_open @ html_inline line @ ''</p>''"
  using assms processed_line_nonempty [OF assms(1)]
  by (simp_all add: plain_def pdf_block_def html_block_def)

text \<open>Steps in sequence; there is one error, so a sequence raises when any step does.\<close>

lemma then_append_Nil: "then_append first (Inr []) = first"
  by (cases first) (simp_all add: then_append_def)


lemma pdf_lines_single: "pdf_lines accepts [l] = pdf_block accepts (strip l)"
  by (simp add: then_append_Nil)

lemma pdf_lines_one_paragraph:
  assumes "split_lines c = [c]" and "strip c = c" and "c \<noteq> []" and "plain c"
    and "processed_line c = text"
  shows "pdf_lines accepts (split_lines c) = append_paragraph accepts text Normal"
  unfolding assms(1) pdf_lines_single assms(2)
  using plain_blocks(1) [OF assms(3,4)] assms(5) by simp

lemma generate_pdf_single:
  assumes "pdf_lines accepts (split_lines report_content) = append_paragraph accepts text Normal"
  shows "generate_pdf accepts now report_content query =
     (if accepts (microscope @ '' AI Research Report'') CustomTitle \<and>
         accepts (''<b>Query:</b> '' @ query) Normal \<and>
         accepts (''<b>Generated:</b> '' @ now) Normal \<and>
         accepts text Normal
      then Inr [Paragraph (microscope @ '' AI Research Report'') CustomTitle,
                Paragraph (''<b>Query:</b> '' @ query) Normal,
                Paragraph (''<b>Generated:</b> '' @ now) Normal,
                Spacer 1 3,
                Paragraph text Normal]
      else Inl ValueError)"
  unfolding generate_pdf_def assms
  by (simp add: then_append_def append_paragraph_def)







text \<open>
  Two lines whose markup the document back-end hands to the constructor malformed. In
  \<^verbatim>\<open>***text***\<close> the bold and the italic span cross. With the prefix \<^verbatim>\<open>"* "\<close> and a
  later star, the italic pattern can match from the star of the prefix; the slice
  \<^verbatim>\<open>processed_line[2:]\<close> then cuts into the tag it inserted.
\<close>

lemma triple_star_misnested:
  "pdf_lines accepts [''***text***''] = append_paragraph accepts ''<b><i>text</b></i>'' Normal"
proof -
  have "split_lines ''***text***'' = [''***text***'']" by code_simp
  moreover have "strip ''***text***'' = ''***text***''" by code_simp
  moreover have "plain ''***text***''" by (simp add: plain_def startswith_def)
  moreover have "processed_line ''***text***'' = ''<b><i>text</b></i>''" by code_simp
  ultimately show ?thesis
    using pdf_lines_one_paragraph [of "''***text***''" "''<b><i>text</b></i>''" accepts]
    by simp
qed

lemma star_bullet_cut:
  "pdf_lines accepts [''* item *x*''] =
     append_paragraph accepts (bullet @ '' > item </i>x*'') Normal"
proof -
  have s: "strip ''* item *x*'' = ''* item *x*''" by code_simp
  have p: "processed_line ''* item *x*'' = ''<i> item </i>x*''" by code_simp
  show ?thesis
    unfolding pdf_lines_single s by (simp add: pdf_block_def p startswith_def)
qed

subsection \<open>The list pattern on the markup of blocks\<close>





















lemma tails_append: "tails (xs @ ys) = tails xs @ tails ys"
  by (simp add: tails_def)












subsection \<open>Input without tags\<close>



























section \<open>The claims\<close>










text \<open>
  C5. The line \<^verbatim>\<open>*a **b** c*\<close> is a paragraph. The display back-end returns one \<^verbatim>\<open><p>\<close>
  whose text is \<^verbatim>\<open><em>a <strong>b</strong> c</em>\<close>, and the document back-end constructs
  one paragraph whose text is \<^verbatim>\<open><i>a <b>b</b> c</i>\<close>: the italic span wraps the whole
  text and the bold span stays inside it. The list of the document holds that paragraph
  after the header, when the constructor accepts the header and the paragraph.
\<close>

theorem bold_inside_italic:
  "process_markdown_to_html ''*a **b** c*'' = p_open @ ''<em>a <strong>b</strong> c</em></p>'' \<and>
   generate_pdf accepts now ''*a **b** c*'' query =
     (if accepts (microscope @ '' AI Research Report'') CustomTitle \<and>
         accepts (''<b>Query:</b> '' @ query) Normal \<and>
         accepts (''<b>Generated:</b> '' @ now) Normal \<and>
         accepts ''<i>a <b>b</b> c</i>'' Normal
      then Inr [Paragraph (microscope @ '' AI Research Report'') CustomTitle,
                Paragraph (''<b>Query:</b> '' @ query) Normal,
                Paragraph (''<b>Generated:</b> '' @ now) Normal,
                Spacer 1 3,
                Paragraph ''<i>a <b>b</b> c</i>'' Normal]
      else Inl ValueError)"
proof -
  have display: "process_markdown_to_html ''*a **b** c*'' = p_open @ ''<em>a <strong>b</strong> c</em></p>''"
    by code_simp
  have "split_lines ''*a **b** c*'' = [''*a **b** c*'']" by code_simp
  moreover have "strip ''*a **b** c*'' = ''*a **b** c*''" by code_simp
  moreover have "plain ''*a **b** c*''" by (simp add: plain_def startswith_def)
  moreover have "processed_line ''*a **b** c*'' = ''<i>a <b>b</b> c</i>''" by code_simp
  ultimately have document: "pdf_lines accepts (split_lines ''*a **b** c*'') =
      append_paragraph accepts ''<i>a <b>b</b> c</i>'' Normal"
    using pdf_lines_one_paragraph [of "''*a **b** c*''" "''<i>a <b>b</b> c</i>''" accepts]
    by simp
  show ?thesis using display generate_pdf_single [OF document] by simp
qed


text \<open>
  C9. The line \<^verbatim>\<open>**bold**\<close> becomes a bold span with no star left, in both back-ends.
  The unmatched \<^verbatim>\<open>**bold\<close> keeps its stars in the text the document back-end gives the
  constructor. In the display back-end it does not: the italic pattern there allows an
  empty group, so it takes the two stars as an empty italic span and the output is
  \<^verbatim>\<open><em></em>bold\<close>.
\<close>

theorem unmatched_bold:
  "process_markdown_to_html ''**bold**'' = p_open @ ''<strong>bold</strong></p>'' \<and>
   pdf_lines accepts (split_lines ''**bold**'') =
     (if accepts ''<b>bold</b>'' Normal then Inr [Paragraph ''<b>bold</b>'' Normal]
      else Inl ValueError) \<and>
   pdf_lines accepts (split_lines ''**bold'') =
     (if accepts ''**bold'' Normal then Inr [Paragraph ''**bold'' Normal]
      else Inl ValueError) \<and>
   process_markdown_to_html ''**bold'' = p_open @ ''<em></em>bold</p>''"
proof -
  have 1: "process_markdown_to_html ''**bold**'' = p_open @ ''<strong>bold</strong></p>''"
    by code_simp
  have "split_lines ''**bold**'' = [''**bold**'']" by code_simp
  moreover have "strip ''**bold**'' = ''**bold**''" by code_simp
  moreover have "plain ''**bold**''" by (simp add: plain_def startswith_def)
  moreover have "processed_line ''**bold**'' = ''<b>bold</b>''" by code_simp
  ultimately have 2: "pdf_lines accepts (split_lines ''**bold**'') =
      append_paragraph accepts ''<b>bold</b>'' Normal"
    using pdf_lines_one_paragraph [of "''**bold**''" "''<b>bold</b>''" accepts] by simp
  have "split_lines ''**bold'' = [''**bold'']" by code_simp
  moreover have "strip ''**bold'' = ''**bold''" by code_simp
  moreover have "plain ''**bold''" by (simp add: plain_def startswith_def)
  moreover have "processed_line ''**bold'' = ''**bold''" by code_simp
  ultimately have 3: "pdf_lines accepts (split_lines ''**bold'') =
      append_paragraph accepts ''**bold'' Normal"
    using pdf_lines_one_paragraph [of "''**bold''" "''**bold''" accepts] by simp
  have 4: "process_markdown_to_html ''**bold'' = p_open @ ''<em></em>bold</p>''"
    by code_simp
  from 1 2 3 4 show ?thesis by (simp add: append_paragraph_def)
qed

text \<open>
  C3. With every query answered, the aggregator returns the divider once, before the
  primary block, and separates the blocks by a blank line only: in the returned
  expression the \<^verbatim>\<open>join\<close> is applied to \<^verbatim>\<open>"\n\n"\<close> alone.
\<close>

theorem divider_written_once:
  "advanced_search search_up ''q'' =
     Inr ([newline, newline] @ replicate 50 CHR ''=''
          @ ''**INSIGHT:** A'' @ [newline, newline]
          @ ''**SOURCE 1:** T'' @ [newline] @ ''**URL:** U'' @ [newline]
          @ ''**CONTENT:** No content'' @ [newline] @ replicate 30 CHR ''-''
          @ [newline, newline] @ ''**INSIGHT:** F'' @ [newline]
          @ [newline, newline] @ ''**INSIGHT:** N'' @ [newline])"
  by code_simp

text \<open>
  C7. When the primary query raises, \<^verbatim>\<open>advanced_search\<close> raises with the message
  prefixed by \<^verbatim>\<open>Search failed: \<close>. When the primary query returns, \<^verbatim>\<open>advanced_search\<close>
  returns, whatever the targeted queries do: the bundle is made of the primary block
  and the blocks of exactly those targeted queries that returned, in order.
\<close>

theorem aggregate_failures:
  "(search (primary_request query) = Inl e \<longrightarrow>
      advanced_search search query = Inl (''Search failed: '' @ e)) \<and>
   (search (primary_request query) = Inr response \<longrightarrow>
      advanced_search search query =
        Inr (divider @ join [newline, newline]
               (format_response response
                # map format_response (supplementary_ok search (targeted_searches query)))))"
  by (simp add: advanced_search_def targeted_loop_ok divider_def)

theorem aggregate_failures_witness:
  "search_down (primary_request ''q'') = Inl ''timeout'' \<and>
   advanced_search search_down ''q'' = Inl ''Search failed: timeout'' \<and>
   search_partial (primary_request ''q'') = Inr \<lparr>resp_answer = Some ''A'', resp_results = None\<rparr> \<and>
   supplementary_ok search_partial (targeted_searches ''q'') =
     [\<lparr>resp_answer = Some ''N'', resp_results = None\<rparr>] \<and>
   advanced_search search_partial ''q'' =
     Inr (divider @ ''**INSIGHT:** A'' @ [newline] @ [newline, newline]
          @ ''**INSIGHT:** N'' @ [newline])"
proof -
  have a: "search_down (primary_request ''q'') = Inl ''timeout''"
    by (simp add: search_down_def)
  have b: "search_partial (primary_request ''q'') = Inr \<lparr>resp_answer = Some ''A'', resp_results = None\<rparr>"
    by (simp add: search_partial_def primary_request_def)
  have s: "supplementary_ok search_partial (targeted_searches ''q'') =
      [\<lparr>resp_answer = Some ''N'', resp_results = None\<rparr>]"
    by (simp add: supplementary_ok_def targeted_searches_def targeted_request_def
        search_partial_def List.map_filter_simps)
  from aggregate_failures [of search_down "''q''" "''timeout''"] a
  have 1: "advanced_search search_down ''q'' = Inl ''Search failed: timeout''"
    by simp
  from aggregate_failures [of search_partial "''q''" _ "\<lparr>resp_answer = Some ''A'', resp_results = None\<rparr>"] b s
  have 2: "advanced_search search_partial ''q'' =
      Inr (divider @ ''**INSIGHT:** A'' @ [newline] @ [newline, newline]
           @ ''**INSIGHT:** N'' @ [newline])"
    by (simp add: format_response_def)
  from a b s 1 2 show ?thesis by blast
qed

text \<open>
  C8. Unless the search and all four agents return, the handler leaves the session as it
  was and shows an error. When the session does change, the search and all four agents
  have returned and the session holds the writer's report with the query of this run.
\<close>

theorem no_partial_report:
  "(\<not> (\<exists>final_report. all_stages_succeed search llm query final_report) \<longrightarrow>
      (\<exists>m. start_research e search llm query st = (st, Error m))) \<and>
   (fst (start_research e search llm query st) \<noteq> st \<longrightarrow>
      (\<exists>final_report. all_stages_succeed search llm query final_report \<and>
         fst (start_research e search llm query st) =
           st\<lparr>research_result := Some final_report, research_query := query\<rparr>))"
proof (cases "run_agents e search llm query")
  case (Inl err)
  then have "\<exists>m. start_research e search llm query st = (st, Error m)"
    by (simp add: start_research_def)
  then show ?thesis by auto
next
  case (Inr fr)
  from run_agents_Inr [OF Inr] have ok: "all_stages_succeed search llm query fr" .
  have "fst (start_research e search llm query st) = st \<or>
      fst (start_research e search llm query st) =
        st\<lparr>research_result := Some fr, research_query := query\<rparr>"
    using Inr by (simp add: start_research_def)
  with ok show ?thesis by blast
qed

theorem no_partial_report_witness:
  "(\<forall>final_report. \<not> all_stages_succeed search_partial llm_critic_down ''q'' final_report) \<and>
   start_research both_keys search_partial llm_critic_down ''q'' held =
     (held, Error ''Research failed: model unavailable'') \<and>
   fst (start_research both_keys search_up llm_up ''q'' held) \<noteq> held \<and>
   all_stages_succeed search_up llm_up ''q'' ''# Report'' \<and>
   fst (start_research both_keys search_up llm_up ''q'' held) =
     \<lparr>research_result = Some ''# Report'', research_query = ''q''\<rparr>"
proof -
  have h: "\<not> (\<exists>final_report. all_stages_succeed search_partial llm_critic_down ''q'' final_report)"
    by (simp add: all_stages_succeed_def llm_critic_down_def)
  from no_partial_report [of search_partial llm_critic_down "''q''" both_keys held] h
  obtain m where m: "start_research both_keys search_partial llm_critic_down ''q'' held = (held, Error m)"
    by blast
  have run: "run_agents both_keys search_partial llm_critic_down ''q'' = Inl ''model unavailable''"
    by (simp add: run_agents_def research_agents_init_def both_keys_def unset_def
        advanced_search_def search_partial_def primary_request_def llm_critic_down_def)
  have 1: "start_research both_keys search_partial llm_critic_down ''q'' held =
      (held, Error ''Research failed: model unavailable'')"
    using m run by (simp add: start_research_def both_keys_def unset_def strip_def isspace_def)
  have ok: "all_stages_succeed search_up llm_up ''q'' ''# Report''"
    by (simp add: all_stages_succeed_def llm_up_def advanced_search_def search_up_def
        primary_request_def)
  have run2: "run_agents both_keys search_up llm_up ''q'' = Inr ''# Report''"
    by (rule run_agents_all [OF _ _ ok]) (simp_all add: both_keys_def unset_def)
  have st: "fst (start_research both_keys search_up llm_up ''q'' held) =
      \<lparr>research_result = Some ''# Report'', research_query = ''q''\<rparr>"
    using run2 by (simp add: start_research_def both_keys_def unset_def strip_def isspace_def held_def)
  then have ne: "fst (start_research both_keys search_up llm_up ''q'' held) \<noteq> held"
    by (simp add: held_def)
  from no_partial_report [of search_up llm_up "''q''" both_keys held] ne
  obtain fr where "all_stages_succeed search_up llm_up ''q'' fr"
    and "fst (start_research both_keys search_up llm_up ''q'' held) =
      held\<lparr>research_result := Some fr, research_query := ''q''\<rparr>"
    by blast
  with st have "all_stages_succeed search_up llm_up ''q'' ''# Report''"
    by (simp add: held_def)
  with h 1 ne st show ?thesis by blast
qed

text \<open>
  C10, as the code has it. A line that is not empty stays not empty through the three
  substitutions of either back-end, since a replacement is never empty. So the test
  \<^verbatim>\<open>if processed_line\<close> of the document back-end never drops a paragraph: for a line
  that is a paragraph the display back-end emits one block and the document back-end
  calls the constructor on the processed line, which appends one block or raises. For
  \<^verbatim>\<open>****\<close> the display back-end emits \<^verbatim>\<open><p ...><strong></strong></p>\<close> and the document
  back-end constructs a paragraph with the text \<^verbatim>\<open><b></b>\<close>.
\<close>

theorem paragraph_never_dropped:
  assumes "line \<noteq> []"
  shows "processed_line line \<noteq> [] \<and> html_inline line \<noteq> [] \<and>
    (plain line \<longrightarrow>
       pdf_block accepts line = append_paragraph accepts (processed_line line) Normal \<and>
       html_block line = p_open @ html_inline line @ ''</p>'')"
  using assms processed_line_nonempty html_inline_nonempty plain_blocks by blast

theorem paragraph_never_dropped_witness:
  "''****'' \<noteq> [] \<and> plain ''****'' \<and> processed_line ''****'' = ''<b></b>'' \<and>
   pdf_block accepts_all ''****'' = Inr [Paragraph ''<b></b>'' Normal] \<and>
   pdf_block rejects_all ''****'' = Inl ValueError \<and>
   html_block ''****'' = p_open @ ''<strong></strong></p>''"
proof -
  note ap = append_paragraph_def accepts_all_def rejects_all_def
  have pl: "plain ''****''" by (simp add: plain_def startswith_def)
  have p: "processed_line ''****'' = ''<b></b>''" by code_simp
  have h: "html_inline ''****'' = ''<strong></strong>''" by code_simp
  from paragraph_never_dropped [of "''****''" accepts_all] pl p h
  have 1: "pdf_block accepts_all ''****'' = Inr [Paragraph ''<b></b>'' Normal]"
    and 2: "html_block ''****'' = p_open @ ''<strong></strong></p>''"
    by (simp_all add: ap)
  from paragraph_never_dropped [of "''****''" rejects_all] pl p
  have 3: "pdf_block rejects_all ''****'' = Inl ValueError"
    by (simp add: ap)
  from pl p 1 2 3 show ?thesis by simp
qed

text \<open>
  C10 as stated fails: the text of the line \<^verbatim>\<open>****\<close> is not empty after the
  substitutions, and the document back-end does not skip the line. It appends a block
  when the constructor accepts \<^verbatim>\<open><b></b>\<close>, and raises otherwise; it never goes on with
  no block.
\<close>

theorem empty_bold_counterexample:
  "process_markdown_to_html ''****'' = p_open @ ''<strong></strong></p>'' \<and>
   processed_line ''****'' = ''<b></b>'' \<and>
   pdf_lines accepts_all (split_lines ''****'') = Inr [Paragraph ''<b></b>'' Normal] \<and>
   pdf_lines rejects_all (split_lines ''****'') = Inl ValueError"
proof -
  have 1: "process_markdown_to_html ''****'' = p_open @ ''<strong></strong></p>''" by code_simp
  have 2: "processed_line ''****'' = ''<b></b>''" by code_simp
  have "split_lines ''****'' = [''****'']" by code_simp
  moreover have "strip ''****'' = ''****''" by code_simp
  moreover have "plain ''****''" by (simp add: plain_def startswith_def)
  ultimately have "pdf_lines accepts (split_lines ''****'') = append_paragraph accepts ''<b></b>'' Normal"
    for accepts
    using pdf_lines_one_paragraph [of "''****''" "''<b></b>''" accepts] 2 by simp
  then have 3: "pdf_lines accepts_all (split_lines ''****'') = Inr [Paragraph ''<b></b>'' Normal]"
    and 4: "pdf_lines rejects_all (split_lines ''****'') = Inl ValueError"
    by (simp_all add: append_paragraph_def accepts_all_def rejects_all_def)
  from 1 2 3 4 show ?thesis by blast
qed

end
